theory Spec2Isabelle
  imports Complex_Main "HOL-Library.Sublist"
begin

section \<open>Message model\<close>

text \<open>
  The handlers of \<^verbatim>\<open>insteon_mqtt/handler\<close> inspect messages of the package
  \<^verbatim>\<open>insteon_mqtt/message\<close>. The handlers read the fields \<^verbatim>\<open>to_addr\<close>,
  \<^verbatim>\<open>from_addr\<close>, \<^verbatim>\<open>cmd1\<close>, \<^verbatim>\<open>is_ack\<close> and \<^verbatim>\<open>flags.type\<close>, and tell the
  classes apart with \<^verbatim>\<open>isinstance\<close>. An address is an opaque identifier compared with
  \<^verbatim>\<open>==\<close>; command bytes are Python integers.
\<close>

type_synonym address = nat

text \<open>
  Modelled from the spec: the enumeration \<^verbatim>\<open>Msg.Flags.Type\<close> is declared in the message
  package. The handlers name \<^verbatim>\<open>DIRECT_ACK\<close> and \<^verbatim>\<open>DIRECT_NAK\<close>; the data model lists
  the reply kind as one of direct-ack, direct-nak, broadcast and further kinds.
\<close>

datatype flags_type =
    BROADCAST
  | DIRECT
  | DIRECT_ACK
  | DIRECT_NAK
  | ALL_LINK_BROADCAST
  | ALL_LINK_CLEANUP
  | CLEANUP_ACK
  | CLEANUP_NAK

text \<open>
  Modelled from the spec: the message classes \<^verbatim>\<open>Msg.OutStandard\<close>, \<^verbatim>\<open>Msg.OutExtended\<close>
  and \<^verbatim>\<open>Msg.InpStandard\<close> are declared in the message package. Following the design
  notes, a message is a tagged variant and \<^verbatim>\<open>isinstance\<close> is a match on the tag;
  \<open>OtherMsg\<close> stands for every other message class. An outbound message that has not
  been echoed carries \<open>is_ack = False\<close>.
\<close>

datatype message =
    is_OutStandard: OutStandard (to_addr: address) (cmd1: int) (cmd2: int) (is_ack: bool)
  | is_OutExtended: OutExtended (to_addr: address) (cmd1: int) (cmd2: int) (is_ack: bool) (data: "int list")
  | is_InpStandard: InpStandard (from_addr: address) (cmd1: int) (cmd2: int) (flags_type: flags_type)
  | OtherMsg

text \<open>
  Modelled from the spec: \<^verbatim>\<open>Msg.OutExtended.direct(to_addr, cmd1, cmd2, data)\<close> builds
  an extended direct message to the given address with the given command bytes and
  payload.
\<close>

definition OutExtended_direct :: "address \<Rightarrow> int \<Rightarrow> int \<Rightarrow> int list \<Rightarrow> message" where
  "OutExtended_direct a c1 c2 d = OutExtended a c1 c2 False d"

text \<open>Python's \<^verbatim>\<open>bytes(n)\<close>: \<open>n\<close> zero bytes.\<close>

definition bytes :: "nat \<Rightarrow> int list" where
  "bytes n = replicate n 0"

text \<open>The three results of \<^verbatim>\<open>msg_received\<close>.\<close>

datatype result = UNKNOWN | CONTINUE | FINISHED

section \<open>Effects on the collaborators\<close>

text \<open>
  A handler acts on its collaborators: it sends through the protocol, it calls the
  callbacks given at construction, and it calls the device and its database. Each such
  call is recorded, in program order, as one effect; \<^verbatim>\<open>msg_received\<close> and
  \<^verbatim>\<open>is_expired\<close> return the result, the updated handler and the effects of the call.
  Calls of the logger are left out.

  The handler passed to \<^verbatim>\<open>protocol.send\<close> is either the sending handler itself or a new
  \<^verbatim>\<open>DeviceDbGet\<close>. The latter is built by \<^verbatim>\<open>DeviceRefresh\<close> from a closure
  \<^verbatim>\<open>on_done\<close> that captures the \<^verbatim>\<open>cmd1\<close> of the reply, and from the dump message.
\<close>

datatype handler_ref =
    Self
  | DeviceDbGet int message

text \<open>
  The effects of \<^verbatim>\<open>StandardCmd\<close> and \<^verbatim>\<open>DeviceRefresh\<close>: \<^verbatim>\<open>protocol.send\<close>,
  the callback of \<^verbatim>\<open>StandardCmd\<close>, \<^verbatim>\<open>device.handle_refresh\<close>, \<^verbatim>\<open>device.db.clear\<close>
  and \<^verbatim>\<open>device.db.set_delta\<close>.
\<close>

datatype effect =
    Send message handler_ref
  | Callback message
  | HandleRefresh message
  | DbClear
  | SetDelta int

text \<open>
  The effects of \<^verbatim>\<open>DeviceDbModify\<close>, over the type of database entries:
  \<^verbatim>\<open>db.add_entry(entry)\<close>, \<^verbatim>\<open>protocol.send(msg, self)\<close> and
  \<^verbatim>\<open>on_done(success, msg, entry)\<close>.
\<close>

datatype 'e db_effect =
    AddEntry 'e
  | SendSelf message
  | OnDone bool string "'e option"

section \<open>StandardCmd\<close>

record StandardCmd =
  sc_addr :: address
  sc_cmd :: int

text \<open>
  \<^verbatim>\<open>StandardCmd.__init__(msg, callback)\<close> keeps \<^verbatim>\<open>msg.to_addr\<close> and \<^verbatim>\<open>msg.cmd1\<close>.
  The callback is a collaborator: calling it is the effect \<open>Callback\<close>.
\<close>

definition StandardCmd_init :: "message \<Rightarrow> StandardCmd" where
  "StandardCmd_init msg = \<lparr> sc_addr = to_addr msg, sc_cmd = cmd1 msg \<rparr>"

text \<open>
  \<^verbatim>\<open>StandardCmd.msg_received(protocol, msg)\<close>. On a matching echo the source logs an
  error when \<^verbatim>\<open>msg.is_ack\<close> is false and returns \<^verbatim>\<open>CONTINUE\<close> in both cases.
\<close>

definition StandardCmd_msg_received ::
  "StandardCmd \<Rightarrow> message \<Rightarrow> result \<times> StandardCmd \<times> effect list" where
  "StandardCmd_msg_received h msg =
     (if is_OutStandard msg then
        (if to_addr msg = sc_addr h \<and> cmd1 msg = sc_cmd h then (CONTINUE, h, [])
         else (UNKNOWN, h, []))
      else if is_InpStandard msg then
        (if from_addr msg = sc_addr h \<and> cmd1 msg = sc_cmd h
         then (FINISHED, h, [Callback msg])
         else (UNKNOWN, h, []))
      else (UNKNOWN, h, []))"

section \<open>DeviceRefresh\<close>

text \<open>
  The fields of \<^verbatim>\<open>DeviceRefresh\<close>: \<^verbatim>\<open>addr\<close> (read from the device at construction),
  \<^verbatim>\<open>msg\<close>, \<^verbatim>\<open>force\<close>, \<^verbatim>\<open>send_count\<close> and \<^verbatim>\<open>num_retry\<close>, and the deadline kept by
  the base class. The device is a collaborator: \<^verbatim>\<open>device.handle_refresh\<close>,
  \<^verbatim>\<open>device.db.clear\<close> and \<^verbatim>\<open>device.db.set_delta\<close> are effects, and the answer of
  \<^verbatim>\<open>device.db.is_current\<close> is a parameter of \<^verbatim>\<open>msg_received\<close>.
\<close>

record DeviceRefresh =
  dr_addr :: address
  dr_msg :: message
  force :: bool
  send_count :: int
  num_retry :: int
  expire_time :: real

text \<open>
  \<^verbatim>\<open>DeviceRefresh.__init__(device, msg, force, num_retry=3)\<close>: \<open>None\<close> is the omitted
  argument. The deadline set by the base class is a parameter.
\<close>

definition DeviceRefresh_init ::
  "address \<Rightarrow> message \<Rightarrow> bool \<Rightarrow> int option \<Rightarrow> real \<Rightarrow> DeviceRefresh" where
  "DeviceRefresh_init device_addr msg frc retry deadline =
     \<lparr> dr_addr = device_addr, dr_msg = msg, force = frc, send_count = 1,
       num_retry = (case retry of None \<Rightarrow> 3 | Some n \<Rightarrow> n),
       expire_time = deadline \<rparr>"

text \<open>
  Modelled from the spec: \<^verbatim>\<open>Base.is_expired(protocol, t)\<close> of \<^verbatim>\<open>handler/Base.py\<close>
  compares the time with the deadline of the handler and returns true past the deadline.
\<close>

definition Base_is_expired :: "DeviceRefresh \<Rightarrow> real \<Rightarrow> bool" where
  "Base_is_expired h t = (expire_time h < t)"

definition DeviceRefresh_is_expired ::
  "DeviceRefresh \<Rightarrow> real \<Rightarrow> bool \<times> DeviceRefresh \<times> effect list" where
  "DeviceRefresh_is_expired h t =
     (if \<not> Base_is_expired h t then (False, h, [])
      else if send_count h < num_retry h
        then (True, h\<lparr>send_count := send_count h + 1\<rparr>, [Send (dr_msg h) Self])
      else (True, h, []))"

text \<open>
  The closure \<^verbatim>\<open>on_done(success, message)\<close> handed to \<^verbatim>\<open>DeviceDbGet\<close>; \<open>delta\<close>
  is the captured \<^verbatim>\<open>msg.cmd1\<close>.
\<close>

definition DeviceRefresh_on_done :: "int \<Rightarrow> bool \<Rightarrow> string \<Rightarrow> effect list" where
  "DeviceRefresh_on_done delta success message = (if success then [SetDelta delta] else [])"

definition DeviceRefresh_msg_received ::
  "(int \<Rightarrow> bool) \<Rightarrow> DeviceRefresh \<Rightarrow> message \<Rightarrow> result \<times> DeviceRefresh \<times> effect list" where
  "DeviceRefresh_msg_received is_current h msg =
     (if is_OutStandard msg \<and> to_addr msg = dr_addr h then
        (if is_ack msg then (CONTINUE, h, []) else (FINISHED, h, []))
      else if is_InpStandard msg \<and> from_addr msg = dr_addr h then
        (let h' = h\<lparr>send_count := num_retry h\<rparr> in
         if \<not> force h \<and> is_current (cmd1 msg) then (FINISHED, h', [HandleRefresh msg])
         else
           (let db_msg = OutExtended_direct (dr_addr h) 0x2f 0x00 (bytes 14) in
            (FINISHED, h',
             [HandleRefresh msg, DbClear, Send db_msg (DeviceDbGet (cmd1 msg) db_msg)])))
      else (UNKNOWN, h, []))"

text \<open>
  Modelled from the spec: the protocol, outside the handlers, polls \<^verbatim>\<open>is_expired\<close> and
  sets the deadline of a handler when it sends the handler's message. Repeated expiry
  checks: each check comes with the deadline in force and the time of the check.
\<close>

fun expiry_checks ::
  "DeviceRefresh \<Rightarrow> (real \<times> real) list \<Rightarrow> bool list \<times> DeviceRefresh \<times> effect list" where
  "expiry_checks h [] = ([], h, [])"
| "expiry_checks h ((d, t) # cs) =
     (case DeviceRefresh_is_expired (h\<lparr>expire_time := d\<rparr>) t of
        (b, h', es) \<Rightarrow>
          (case expiry_checks h' cs of
             (bs, h'', es') \<Rightarrow> (b # bs, h'', es @ es')))"

section \<open>DeviceDbModify\<close>

text \<open>
  The fields of \<^verbatim>\<open>DeviceDbModify\<close>: the address of the database \<^verbatim>\<open>self.db\<close>,
  \<^verbatim>\<open>entry\<close>, \<^verbatim>\<open>orig_entry\<close> and the queue \<^verbatim>\<open>next\<close>. An entry is opaque to the
  handler. \<^verbatim>\<open>db.add_entry\<close>, \<^verbatim>\<open>protocol.send\<close> and \<^verbatim>\<open>on_done\<close> are effects.
\<close>

record 'e DeviceDbModify =
  db_addr :: address
  entry :: 'e
  orig_entry :: 'e
  next_upd :: "(message \<times> 'e) list"

definition DeviceDbModify_init :: "address \<Rightarrow> 'e \<Rightarrow> 'e DeviceDbModify" where
  "DeviceDbModify_init device_db_addr e =
     \<lparr> db_addr = device_db_addr, entry = e, orig_entry = e, next_upd = [] \<rparr>"

definition add_update :: "'e DeviceDbModify \<Rightarrow> message \<Rightarrow> 'e \<Rightarrow> 'e DeviceDbModify" where
  "add_update h msg e = h\<lparr>next_upd := next_upd h @ [(msg, e)]\<rparr>"

definition DeviceDbModify_msg_received ::
  "'e DeviceDbModify \<Rightarrow> message \<Rightarrow> result \<times> 'e DeviceDbModify \<times> 'e db_effect list" where
  "DeviceDbModify_msg_received h msg =
     (if is_OutExtended msg then
        (if to_addr msg = db_addr h \<and> cmd1 msg = 0x2f then
           (if is_ack msg then (CONTINUE, h, [])
            else (FINISHED, h, [OnDone False ''Device database update failed'' None]))
         else (UNKNOWN, h, []))
      else if is_InpStandard msg then
        (if from_addr msg = db_addr h \<and> cmd1 msg = 0x2f then
           (if flags_type msg = DIRECT_ACK then
              (case next_upd h of
                 (m, e) # rest \<Rightarrow>
                   (FINISHED, h\<lparr>entry := e, next_upd := rest\<rparr>,
                    [AddEntry (entry h), SendSelf m])
               | [] \<Rightarrow>
                   (FINISHED, h,
                    [AddEntry (entry h),
                     OnDone True ''Device database update complete'' (Some (orig_entry h))]))
            else if flags_type msg = DIRECT_NAK then
              (FINISHED, h, [OnDone False ''Device database update failed'' None])
            else (FINISHED, h, [OnDone False ''Device database update failed'' None]))
         else (UNKNOWN, h, []))
      else (UNKNOWN, h, []))"

text \<open>
  A chain: the handler is constructed with the first entry, then \<^verbatim>\<open>add_update\<close> is
  called for each further pair, in order.
\<close>

definition chain :: "address \<Rightarrow> 'e \<Rightarrow> (message \<times> 'e) list \<Rightarrow> 'e DeviceDbModify" where
  "chain a e us = foldl (\<lambda>h (m, e'). add_update h m e') (DeviceDbModify_init a e) us"

text \<open>The views of a trace: the entries given to \<^verbatim>\<open>add_entry\<close>, the calls of \<^verbatim>\<open>on_done\<close>.\<close>

fun added :: "'e db_effect list \<Rightarrow> 'e list" where
  "added [] = []"
| "added (AddEntry e # es) = e # added es"
| "added (x # es) = added es"

fun on_done_calls :: "'e db_effect list \<Rightarrow> (bool \<times> string \<times> 'e option) list" where
  "on_done_calls [] = []"
| "on_done_calls (OnDone ok s p # es) = (ok, s, p) # on_done_calls es"
| "on_done_calls (x # es) = on_done_calls es"

fun reinstalls :: "'e db_effect list \<Rightarrow> bool" where
  "reinstalls [] = False"
| "reinstalls (SendSelf m # es) = True"
| "reinstalls (x # es) = reinstalls es"

text \<open>
  Modelled from the spec: the dispatch loop lives in the protocol class, outside the
  handlers. It offers each message to the active handler; a handler that returns
  \<^verbatim>\<open>FINISHED\<close> is removed and is offered nothing more, unless in that call it sent a
  message with itself as handler, which makes it the active handler again. The result
  tells whether the handler is still active, and gives its state and the trace.
\<close>

fun dispatch ::
  "'e DeviceDbModify \<Rightarrow> message list \<Rightarrow> bool \<times> 'e DeviceDbModify \<times> 'e db_effect list" where
  "dispatch h [] = (True, h, [])"
| "dispatch h (m # ms) =
     (case DeviceDbModify_msg_received h m of
        (r, h', es) \<Rightarrow>
          if r = FINISHED \<and> \<not> reinstalls es then (False, h', es)
          else (case dispatch h' ms of (a, h'', es') \<Rightarrow> (a, h'', es @ es')))"

text \<open>
  Every message of a list offered to \<^verbatim>\<open>msg_received\<close> in order, whatever the results:
  the handler itself keeps no record of having finished.
\<close>

fun offer_all ::
  "'e DeviceDbModify \<Rightarrow> message list \<Rightarrow> 'e DeviceDbModify \<times> 'e db_effect list" where
  "offer_all h [] = (h, [])"
| "offer_all h (m # ms) =
     (case DeviceDbModify_msg_received h m of
        (r, h', es) \<Rightarrow> (case offer_all h' ms of (h'', es') \<Rightarrow> (h'', es @ es')))"

text \<open>The replies that confirm a step, and the messages that end the chain in failure.\<close>

definition db_ack :: "address \<Rightarrow> message \<Rightarrow> bool" where
  "db_ack a msg =
     (is_InpStandard msg \<and> from_addr msg = a \<and> cmd1 msg = 0x2f \<and> flags_type msg = DIRECT_ACK)"

definition db_fail :: "address \<Rightarrow> message \<Rightarrow> bool" where
  "db_fail a msg =
     ((is_OutExtended msg \<and> to_addr msg = a \<and> cmd1 msg = 0x2f \<and> \<not> is_ack msg) \<or>
      (is_InpStandard msg \<and> from_addr msg = a \<and> cmd1 msg = 0x2f \<and> flags_type msg \<noteq> DIRECT_ACK))"

section \<open>Properties of StandardCmd\<close>

text \<open>
  C6. For every \<^verbatim>\<open>StandardCmd\<close> handler and every echo, an \<^verbatim>\<open>OutStandard\<close> message,
  \<^verbatim>\<open>msg_received\<close> returns \<^verbatim>\<open>CONTINUE\<close> if and only if the destination address and
  \<^verbatim>\<open>cmd1\<close> of the echo both equal the values taken from the outbound message at
  construction, whether the echo is an ACK or a NAK; any other echo returns
  \<^verbatim>\<open>UNKNOWN\<close>. No echo calls the callback, and the handler is unchanged.
\<close>

theorem StandardCmd_echo:
  "(fst (StandardCmd_msg_received h (OutStandard a c1 c2 ack)) = CONTINUE
      \<longleftrightarrow> a = sc_addr h \<and> c1 = sc_cmd h)
   \<and> StandardCmd_msg_received h (OutStandard a c1 c2 ack) =
       (if a = sc_addr h \<and> c1 = sc_cmd h then CONTINUE else UNKNOWN, h, [])
   \<and> sc_addr (StandardCmd_init (OutStandard a0 c0 d0 k0)) = a0
   \<and> sc_cmd (StandardCmd_init (OutStandard a0 c0 d0 k0)) = c0"
  by (simp add: StandardCmd_msg_received_def StandardCmd_init_def)

theorem StandardCmd_echo_witness:
  "StandardCmd_msg_received (StandardCmd_init (OutStandard 7 0x11 0xff False)) (OutStandard 7 0x11 0xff False)
     = (CONTINUE, \<lparr> sc_addr = 7, sc_cmd = 0x11 \<rparr>, [])
  \<and> StandardCmd_msg_received (StandardCmd_init (OutStandard 7 0x11 0xff False)) (OutStandard 7 0x11 0xff True)
     = (CONTINUE, \<lparr> sc_addr = 7, sc_cmd = 0x11 \<rparr>, [])
  \<and> StandardCmd_msg_received (StandardCmd_init (OutStandard 7 0x11 0xff False)) (OutStandard 7 0x12 0xff True)
     = (UNKNOWN, \<lparr> sc_addr = 7, sc_cmd = 0x11 \<rparr>, [])"
  using StandardCmd_echo [of "StandardCmd_init (OutStandard 7 0x11 0xff False)" 7 "0x11" "0xff" False 7 "0x11" "0xff" False]
    StandardCmd_echo [of "StandardCmd_init (OutStandard 7 0x11 0xff False)" 7 "0x11" "0xff" True 7 "0x11" "0xff" False]
    StandardCmd_echo [of "StandardCmd_init (OutStandard 7 0x11 0xff False)" 7 "0x12" "0xff" True 7 "0x11" "0xff" False]
  by (simp add: StandardCmd_init_def)

text \<open>
  C7. For every \<^verbatim>\<open>StandardCmd\<close> handler, an \<^verbatim>\<open>InpStandard\<close> message whose source
  address or \<^verbatim>\<open>cmd1\<close> differs from the expected value returns \<^verbatim>\<open>UNKNOWN\<close>, calls no
  callback and leaves the handler as it was; an \<^verbatim>\<open>InpStandard\<close> message that matches
  both, offered next, calls the callback with that message and returns
  \<^verbatim>\<open>FINISHED\<close>, whatever its flags.
\<close>

theorem StandardCmd_unmatched_reply:
  assumes "is_InpStandard m" and "from_addr m \<noteq> sc_addr h \<or> cmd1 m \<noteq> sc_cmd h"
    and "is_InpStandard m'" and "from_addr m' = sc_addr h" and "cmd1 m' = sc_cmd h"
  shows "StandardCmd_msg_received h m = (UNKNOWN, h, [])
    \<and> StandardCmd_msg_received (fst (snd (StandardCmd_msg_received h m))) m'
         = (FINISHED, h, [Callback m'])"
  using assms by (auto simp add: StandardCmd_msg_received_def)

theorem StandardCmd_unmatched_reply_witness:
  "StandardCmd_msg_received \<lparr> sc_addr = 7, sc_cmd = 0x11 \<rparr> (InpStandard 8 0x11 0 DIRECT_ACK)
     = (UNKNOWN, \<lparr> sc_addr = 7, sc_cmd = 0x11 \<rparr>, [])
   \<and> StandardCmd_msg_received
        (fst (snd (StandardCmd_msg_received \<lparr> sc_addr = 7, sc_cmd = 0x11 \<rparr> (InpStandard 8 0x11 0 DIRECT_ACK))))
        (InpStandard 7 0x11 0xff DIRECT_NAK)
     = (FINISHED, \<lparr> sc_addr = 7, sc_cmd = 0x11 \<rparr>, [Callback (InpStandard 7 0x11 0xff DIRECT_NAK)])"
proof -
  let ?h = "\<lparr> sc_addr = 7, sc_cmd = 0x11 \<rparr>"
  have 1: "is_InpStandard (InpStandard 8 0x11 0 DIRECT_ACK)" by simp
  have 2: "from_addr (InpStandard 8 0x11 0 DIRECT_ACK) \<noteq> sc_addr ?h
      \<or> cmd1 (InpStandard 8 0x11 0 DIRECT_ACK) \<noteq> sc_cmd ?h" by simp
  have 3: "is_InpStandard (InpStandard 7 0x11 0xff DIRECT_NAK)" by simp
  have 4: "from_addr (InpStandard 7 0x11 0xff DIRECT_NAK) = sc_addr ?h" by simp
  have 5: "cmd1 (InpStandard 7 0x11 0xff DIRECT_NAK) = sc_cmd ?h" by simp
  show ?thesis by (rule StandardCmd_unmatched_reply [OF 1 2 3 4 5])
qed

section \<open>Properties of DeviceRefresh\<close>

text \<open>
  C3, as stated: a \<^verbatim>\<open>DeviceRefresh\<close> handler claims an echo if and only if both the
  destination address and the command byte match the address and the command of the
  probe. The handler for the probe \<^verbatim>\<open>0x19\<close> to device 7 claims the echo of a command
  \<^verbatim>\<open>0x2e\<close> to device 7.
\<close>

theorem DeviceRefresh_echo_cmd_counterexample:
  "\<not> (fst (DeviceRefresh_msg_received ((=) 5)
              (DeviceRefresh_init 7 (OutStandard 7 0x19 0x00 False) False None 5)
              (OutStandard 7 0x2e 0x00 True)) \<noteq> UNKNOWN
        \<longleftrightarrow> to_addr (OutStandard 7 0x2e 0x00 True)
              = dr_addr (DeviceRefresh_init 7 (OutStandard 7 0x19 0x00 False) False None 5)
            \<and> cmd1 (OutStandard 7 0x2e 0x00 True)
              = cmd1 (dr_msg (DeviceRefresh_init 7 (OutStandard 7 0x19 0x00 False) False None 5)))"
  by (simp add: DeviceRefresh_msg_received_def DeviceRefresh_init_def)

text \<open>
  C3, amended. For every \<^verbatim>\<open>DeviceRefresh\<close> handler and every echo, an
  \<^verbatim>\<open>OutStandard\<close> message, the handler claims the echo if and only if the destination
  address of the echo equals the address of the handler; the command byte is not
  compared. A claimed ACK echo returns \<^verbatim>\<open>CONTINUE\<close>, a claimed NAK echo returns
  \<^verbatim>\<open>FINISHED\<close>, an echo to another address returns \<^verbatim>\<open>UNKNOWN\<close>; the handler is
  unchanged and nothing is sent.
\<close>

theorem DeviceRefresh_echo:
  "(fst (DeviceRefresh_msg_received is_current h (OutStandard a c1 c2 ack)) \<noteq> UNKNOWN
      \<longleftrightarrow> a = dr_addr h)
   \<and> DeviceRefresh_msg_received is_current h (OutStandard a c1 c2 ack) =
       (if a = dr_addr h then (if ack then CONTINUE else FINISHED) else UNKNOWN, h, [])"
  by (simp add: DeviceRefresh_msg_received_def)

theorem DeviceRefresh_echo_witness:
  "DeviceRefresh_msg_received (\<lambda>delta. True)
      (DeviceRefresh_init 7 (OutStandard 7 0x19 0x00 False) False None 5) (OutStandard 7 0x2e 0x00 True)
     = (CONTINUE, DeviceRefresh_init 7 (OutStandard 7 0x19 0x00 False) False None 5, [])
   \<and> DeviceRefresh_msg_received (\<lambda>delta. True)
      (DeviceRefresh_init 7 (OutStandard 7 0x19 0x00 False) False None 5) (OutStandard 7 0x19 0x00 False)
     = (FINISHED, DeviceRefresh_init 7 (OutStandard 7 0x19 0x00 False) False None 5, [])
   \<and> DeviceRefresh_msg_received (\<lambda>delta. True)
      (DeviceRefresh_init 7 (OutStandard 7 0x19 0x00 False) False None 5) (OutStandard 8 0x19 0x00 True)
     = (UNKNOWN, DeviceRefresh_init 7 (OutStandard 7 0x19 0x00 False) False None 5, [])"
  using DeviceRefresh_echo [of "\<lambda>delta. True" "DeviceRefresh_init 7 (OutStandard 7 0x19 0x00 False) False None 5" 7 "0x2e" 0 True]
   DeviceRefresh_echo [of "\<lambda>delta. True" "DeviceRefresh_init 7 (OutStandard 7 0x19 0x00 False) False None 5" 7 "0x19" 0 False]
   DeviceRefresh_echo [of "\<lambda>delta. True" "DeviceRefresh_init 7 (OutStandard 7 0x19 0x00 False) False None 5" 8 "0x19" 0 True]
  by (simp add: DeviceRefresh_init_def)

lemma is_expired_past:
  "Base_is_expired h t \<Longrightarrow>
     DeviceRefresh_is_expired h t =
       (if send_count h < num_retry h
        then (True, h\<lparr>send_count := send_count h + 1\<rparr>, [Send (dr_msg h) Self])
        else (True, h, []))"
  by (simp add: DeviceRefresh_is_expired_def)

lemma expiry_checks_all_expired:
  "\<forall>c \<in> set cs. \<forall>g. Base_is_expired (g\<lparr>expire_time := fst c\<rparr>) (snd c) \<Longrightarrow>
   num_retry h - send_count h = int k \<Longrightarrow>
   expiry_checks h cs =
     (replicate (length cs) True,
      h\<lparr>send_count := send_count h + int (min k (length cs)),
        expire_time := (if cs = [] then expire_time h else fst (last cs))\<rparr>,
      replicate (min k (length cs)) (Send (dr_msg h) Self))"
proof (induction cs arbitrary: h k)
  case Nil
  then show ?case by simp
next
  case (Cons c cs)
  obtain d t where c: "c = (d, t)" by (cases c)
  have rest: "\<forall>c \<in> set cs. \<forall>g. Base_is_expired (g\<lparr>expire_time := fst c\<rparr>) (snd c)"
    using Cons.prems by simp
  let ?h = "h\<lparr>expire_time := d\<rparr>"
  have past: "Base_is_expired ?h t" using Cons.prems(1) c by simp
  show ?case
  proof (cases k)
    case 0
    then have "\<not> send_count ?h < num_retry ?h" using Cons.prems(2) by simp
    then have step: "DeviceRefresh_is_expired ?h t = (True, ?h, [])"
      using is_expired_past [OF past] by simp
    have "num_retry ?h - send_count ?h = int 0" using Cons.prems(2) 0 by simp
    from Cons.IH [OF rest this] step c 0 show ?thesis by simp
  next
    case (Suc k')
    let ?h' = "?h\<lparr>send_count := send_count h + 1\<rparr>"
    have "send_count ?h < num_retry ?h" using Cons.prems(2) Suc by simp
    then have step: "DeviceRefresh_is_expired ?h t = (True, ?h', [Send (dr_msg h) Self])"
      using is_expired_past [OF past] by simp
    have "num_retry ?h' - send_count ?h' = int k'" using Cons.prems(2) Suc by simp
    from Cons.IH [OF rest this] step c Suc show ?thesis by simp
  qed
qed

text \<open>
  C4. A \<^verbatim>\<open>DeviceRefresh\<close> handler constructed with \<^verbatim>\<open>num_retry\<close> 3 (given, or by
  default) that receives no reply: whatever the number of expired checks, every check
  returns true, the first two resend the stored probe with the handler itself, and the
  later ones send nothing, so the probe is sent three times in all. In one expired check,
  \<^verbatim>\<open>send_count < num_retry\<close> increments \<^verbatim>\<open>send_count\<close>, resends and returns true;
  otherwise the check returns true and sends nothing.
\<close>

theorem bounded_retry:
  assumes "r = None \<or> r = Some 3"
    and "\<forall>c \<in> set cs. \<forall>g. Base_is_expired (g\<lparr>expire_time := fst c\<rparr>) (snd c)"
  shows "expiry_checks (DeviceRefresh_init a m f r d0) cs =
     (replicate (length cs) True,
      (DeviceRefresh_init a m f r d0)
        \<lparr>send_count := 1 + int (min 2 (length cs)),
         expire_time := (if cs = [] then d0 else fst (last cs))\<rparr>,
      replicate (min 2 (length cs)) (Send m Self))
   \<and> (\<forall>h t. Base_is_expired h t \<longrightarrow>
         DeviceRefresh_is_expired h t =
           (if send_count h < num_retry h
            then (True, h\<lparr>send_count := send_count h + 1\<rparr>, [Send (dr_msg h) Self])
            else (True, h, [])))"
proof -
  let ?h = "DeviceRefresh_init a m f r d0"
  have n: "num_retry ?h = 3" "send_count ?h = 1" "dr_msg ?h = m" "expire_time ?h = d0"
    using assms(1) by (auto simp add: DeviceRefresh_init_def)
  have k: "num_retry ?h - send_count ?h = int 2" by (simp add: n)
  have run: "expiry_checks ?h cs =
     (replicate (length cs) True,
      ?h\<lparr>send_count := 1 + int (min 2 (length cs)),
         expire_time := (if cs = [] then d0 else fst (last cs))\<rparr>,
      replicate (min 2 (length cs)) (Send m Self))"
    using expiry_checks_all_expired [OF assms(2) k] by (simp only: n)
  have step: "\<forall>h t. Base_is_expired h t \<longrightarrow>
         DeviceRefresh_is_expired h t =
           (if send_count h < num_retry h
            then (True, h\<lparr>send_count := send_count h + 1\<rparr>, [Send (dr_msg h) Self])
            else (True, h, []))"
    using is_expired_past by blast
  from run step show ?thesis by (rule conjI)
qed


theorem bounded_retry_witness:
  "expiry_checks (DeviceRefresh_init 7 (OutStandard 7 0x19 0x00 False) False None 5)
      [(5, 6), (11, 12), (17, 18), (17, 19)]
    = ([True, True, True, True],
       \<lparr> dr_addr = 7, dr_msg = OutStandard 7 0x19 0x00 False, force = False, send_count = 3,
         num_retry = 3, expire_time = 17 \<rparr>,
       [Send (OutStandard 7 0x19 0x00 False) Self, Send (OutStandard 7 0x19 0x00 False) Self])"
  using bounded_retry [of None "[(5, 6), (11, 12), (17, 18), (17, 19)]" 7
      "OutStandard 7 0x19 0x00 False" False 5]
  by (simp add: DeviceRefresh_init_def Base_is_expired_def numeral_2_eq_2)

text \<open>
  C5. For every \<^verbatim>\<open>DeviceRefresh\<close> handler and every reply, an \<^verbatim>\<open>InpStandard\<close> message
  from the address of the handler: when \<^verbatim>\<open>force\<close> is false and the database is current
  at the \<^verbatim>\<open>cmd1\<close> of the reply, the only effect is \<^verbatim>\<open>device.handle_refresh(msg)\<close>, so
  no dump message is sent and the database is neither cleared nor given a delta, and the
  result is \<^verbatim>\<open>FINISHED\<close>. In both branches the result is \<^verbatim>\<open>FINISHED\<close> and the first
  effect is \<^verbatim>\<open>device.handle_refresh(msg)\<close>.
\<close>

theorem freshness_short_circuit:
  assumes "is_InpStandard m" and "from_addr m = dr_addr h"
  shows "(\<not> force h \<and> is_current (cmd1 m) \<longrightarrow>
            DeviceRefresh_msg_received is_current h m =
              (FINISHED, h\<lparr>send_count := num_retry h\<rparr>, [HandleRefresh m]))
       \<and> fst (DeviceRefresh_msg_received is_current h m) = FINISHED
       \<and> hd (snd (snd (DeviceRefresh_msg_received is_current h m))) = HandleRefresh m
       \<and> snd (snd (DeviceRefresh_msg_received is_current h m)) \<noteq> []"
  using assms by (cases m) (simp_all add: DeviceRefresh_msg_received_def Let_def)

theorem freshness_short_circuit_witness:
  "DeviceRefresh_msg_received (\<lambda>delta. delta = 0x05)
      (DeviceRefresh_init 7 (OutStandard 7 0x19 0x00 False) False (Some 3) 5)
      (InpStandard 7 0x05 0xff DIRECT_ACK)
    = (FINISHED,
       \<lparr> dr_addr = 7, dr_msg = OutStandard 7 0x19 0x00 False, force = False, send_count = 3,
         num_retry = 3, expire_time = 5 \<rparr>,
       [HandleRefresh (InpStandard 7 0x05 0xff DIRECT_ACK)])"
  using freshness_short_circuit [of "InpStandard 7 0x05 0xff DIRECT_ACK"
      "DeviceRefresh_init 7 (OutStandard 7 0x19 0x00 False) False (Some 3) 5" "\<lambda>delta. delta = 0x05"]
  by (simp add: DeviceRefresh_init_def)

lemma is_expired_before:
  "t < expire_time h \<Longrightarrow> DeviceRefresh_is_expired h t = (False, h, [])"
  by (simp add: DeviceRefresh_is_expired_def Base_is_expired_def)

lemma expiry_checks_before:
  "\<forall>t \<in> set ts. t < expire_time h \<Longrightarrow>
   expiry_checks h (map (\<lambda>t. (expire_time h, t)) ts) = (replicate (length ts) False, h, [])"
  by (induction ts) (simp_all add: is_expired_before)

text \<open>
  C9. For every \<^verbatim>\<open>DeviceRefresh\<close> handler and every time strictly before its deadline,
  \<^verbatim>\<open>is_expired\<close> returns false, leaves the handler unchanged and sends nothing; any
  number of such checks in a row does the same. Whenever the check of the base class
  answers false, so does \<^verbatim>\<open>is_expired\<close>, with no change and nothing sent.
\<close>

theorem idempotent_expiry:
  assumes "t < expire_time h" and "\<forall>t' \<in> set ts. t' < expire_time h"
  shows "DeviceRefresh_is_expired h t = (False, h, [])
     \<and> expiry_checks h (map (\<lambda>t'. (expire_time h, t')) ts) = (replicate (length ts) False, h, [])
     \<and> (\<forall>g u. \<not> Base_is_expired g u \<longrightarrow> DeviceRefresh_is_expired g u = (False, g, []))"
  using assms is_expired_before expiry_checks_before
  by (simp add: DeviceRefresh_is_expired_def)

theorem idempotent_expiry_witness:
  "DeviceRefresh_is_expired (DeviceRefresh_init 7 (OutStandard 7 0x19 0x00 False) False None 10) 9.5
     = (False, DeviceRefresh_init 7 (OutStandard 7 0x19 0x00 False) False None 10, [])
   \<and> expiry_checks (DeviceRefresh_init 7 (OutStandard 7 0x19 0x00 False) False None 10)
        [(10, 1), (10, 2), (10, 9)]
     = ([False, False, False], DeviceRefresh_init 7 (OutStandard 7 0x19 0x00 False) False None 10, [])"
  using idempotent_expiry [of "9.5" "DeviceRefresh_init 7 (OutStandard 7 0x19 0x00 False) False None 10" "[1, 2, 9]"]
  by (simp add: DeviceRefresh_init_def)

text \<open>
  C10. \<^verbatim>\<open>send_count \<le> num_retry\<close> holds after construction with \<^verbatim>\<open>num_retry \<ge> 1\<close>
  (and with the default), where \<^verbatim>\<open>send_count\<close> is 1. It is kept by \<^verbatim>\<open>is_expired\<close>,
  which adds one to \<^verbatim>\<open>send_count\<close> only in an expired check with
  \<^verbatim>\<open>send_count < num_retry\<close>, and by \<^verbatim>\<open>msg_received\<close>, which sets \<^verbatim>\<open>send_count\<close> to
  \<^verbatim>\<open>num_retry\<close> on a reply from the address of the handler and leaves it otherwise.
  Neither changes \<^verbatim>\<open>num_retry\<close>.
\<close>

theorem send_count_invariant:
  "(1 \<le> n \<longrightarrow> send_count (DeviceRefresh_init a m f (Some n) d)
                 \<le> num_retry (DeviceRefresh_init a m f (Some n) d))
   \<and> send_count (DeviceRefresh_init a m f None d) \<le> num_retry (DeviceRefresh_init a m f None d)
   \<and> send_count (DeviceRefresh_init a m f r d) = 1
   \<and> (send_count h \<le> num_retry h \<longrightarrow>
        send_count (fst (snd (DeviceRefresh_is_expired h t)))
          \<le> num_retry (fst (snd (DeviceRefresh_is_expired h t)))
        \<and> num_retry (fst (snd (DeviceRefresh_is_expired h t))) = num_retry h
        \<and> send_count (fst (snd (DeviceRefresh_is_expired h t)))
            = (if Base_is_expired h t \<and> send_count h < num_retry h then send_count h + 1
               else send_count h)
        \<and> send_count (fst (snd (DeviceRefresh_msg_received is_current h msg)))
          \<le> num_retry (fst (snd (DeviceRefresh_msg_received is_current h msg)))
        \<and> num_retry (fst (snd (DeviceRefresh_msg_received is_current h msg))) = num_retry h
        \<and> send_count (fst (snd (DeviceRefresh_msg_received is_current h msg)))
            = (if is_InpStandard msg \<and> from_addr msg = dr_addr h then num_retry h
               else send_count h))"
  by (cases msg) (simp_all add: DeviceRefresh_init_def DeviceRefresh_is_expired_def
      DeviceRefresh_msg_received_def Let_def)

theorem send_count_invariant_witness:
  "(1::int) \<le> 3
   \<and> send_count (DeviceRefresh_init 7 (OutStandard 7 0x19 0x00 False) False (Some 3) 5) = 1
   \<and> num_retry (DeviceRefresh_init 7 (OutStandard 7 0x19 0x00 False) False (Some 3) 5) = 3
   \<and> send_count (fst (snd (DeviceRefresh_is_expired
         (DeviceRefresh_init 7 (OutStandard 7 0x19 0x00 False) False (Some 3) 5) 6))) = 2
   \<and> send_count (fst (snd (DeviceRefresh_msg_received (\<lambda>delta. True)
         (DeviceRefresh_init 7 (OutStandard 7 0x19 0x00 False) False (Some 3) 5)
         (InpStandard 7 0x05 0xff DIRECT_ACK)))) = 3"
  using send_count_invariant [of 3 7 "OutStandard 7 0x19 0x00 False" False 5 "Some 3"
      "DeviceRefresh_init 7 (OutStandard 7 0x19 0x00 False) False (Some 3) 5" 6
      "\<lambda>delta. True" "InpStandard 7 0x05 0xff DIRECT_ACK"]
  by (simp add: DeviceRefresh_init_def Base_is_expired_def)

section \<open>Properties of DeviceDbModify\<close>

text \<open>The four kinds of call of \<^verbatim>\<open>msg_received\<close>, and what they do to a run.\<close>

lemma step_fail:
  "db_fail (db_addr h) m \<Longrightarrow>
   DeviceDbModify_msg_received h m =
     (FINISHED, h, [OnDone False ''Device database update failed'' None])"
  by (cases m) (auto simp add: db_fail_def DeviceDbModify_msg_received_def)

lemma step_ack_last:
  "db_ack (db_addr h) m \<Longrightarrow> next_upd h = [] \<Longrightarrow>
   DeviceDbModify_msg_received h m =
     (FINISHED, h,
      [AddEntry (entry h),
       OnDone True ''Device database update complete'' (Some (orig_entry h))])"
  by (cases m) (auto simp add: db_ack_def DeviceDbModify_msg_received_def)

lemma step_ack_more:
  "db_ack (db_addr h) m \<Longrightarrow> next_upd h = (m', e') # rest \<Longrightarrow>
   DeviceDbModify_msg_received h m =
     (FINISHED, h\<lparr>entry := e', next_upd := rest\<rparr>, [AddEntry (entry h), SendSelf m'])"
  by (cases m) (auto simp add: db_ack_def DeviceDbModify_msg_received_def)

lemma step_other:
  "\<not> db_ack (db_addr h) m \<Longrightarrow> \<not> db_fail (db_addr h) m \<Longrightarrow>
   DeviceDbModify_msg_received h m =
     (if is_OutExtended m \<and> to_addr m = db_addr h \<and> cmd1 m = 0x2f then CONTINUE else UNKNOWN,
      h, [])"
  by (cases m) (auto simp add: db_ack_def db_fail_def DeviceDbModify_msg_received_def)

lemma dispatch_fail:
  "db_fail (db_addr h) m \<Longrightarrow>
   dispatch h (m # ms) = (False, h, [OnDone False ''Device database update failed'' None])"
  by (simp add: step_fail)

lemma dispatch_ack_last:
  "db_ack (db_addr h) m \<Longrightarrow> next_upd h = [] \<Longrightarrow>
   dispatch h (m # ms) =
     (False, h,
      [AddEntry (entry h),
       OnDone True ''Device database update complete'' (Some (orig_entry h))])"
  by (simp add: step_ack_last)

lemma dispatch_ack_more:
  "db_ack (db_addr h) m \<Longrightarrow> next_upd h = (m', e') # rest \<Longrightarrow>
   dispatch h (m # ms) =
     (case dispatch (h\<lparr>entry := e', next_upd := rest\<rparr>) ms of
        (a, h'', tr) \<Rightarrow> (a, h'', AddEntry (entry h) # SendSelf m' # tr))"
  by (simp add: step_ack_more)

lemma dispatch_other:
  "\<not> db_ack (db_addr h) m \<Longrightarrow> \<not> db_fail (db_addr h) m \<Longrightarrow>
   dispatch h (m # ms) = dispatch h ms"
  by (simp add: step_other split: prod.splits)

lemma on_done_calls_append: "on_done_calls (xs @ ys) = on_done_calls xs @ on_done_calls ys"
  by (induction xs rule: on_done_calls.induct) simp_all

lemma ack_not_fail: "db_ack a m \<Longrightarrow> \<not> db_fail a m"
  by (auto simp add: db_ack_def db_fail_def)

lemma dispatch_outcome:
  "dispatch h ms = (act, h', tr) \<Longrightarrow>
     prefix (added tr) (entry h # map snd (next_upd h))
     \<and> length (added tr) \<le> length (filter (db_ack (db_addr h)) ms)
     \<and> (if act then on_done_calls tr = []
        else (\<exists>pre. on_done_calls pre = []
               \<and> ((tr = pre @ [OnDone True ''Device database update complete''
                                  (Some (orig_entry h))]
                    \<and> added tr = entry h # map snd (next_upd h))
                   \<or> (tr = pre @ [OnDone False ''Device database update failed'' None]
                       \<and> list_ex (db_fail (db_addr h)) ms))))"
proof (induction ms arbitrary: h act h' tr)
  case Nil
  then show ?case by auto
next
  case (Cons m ms)
  consider (fail) "db_fail (db_addr h) m"
    | (last) "db_ack (db_addr h) m" "next_upd h = []"
    | (more) m' e' rest where "db_ack (db_addr h) m" "next_upd h = (m', e') # rest"
    | (other) "\<not> db_ack (db_addr h) m" "\<not> db_fail (db_addr h) m"
    by (cases "next_upd h") auto
  then show ?case
  proof cases
    case fail
    with Cons.prems have "act = False" "tr = [OnDone False ''Device database update failed'' None]"
      by (auto simp add: dispatch_fail simp del: dispatch.simps)
    with fail show ?thesis by (auto intro: exI [of _ "[]"])
  next
    case last
    with Cons.prems have "act = False"
      "tr = [AddEntry (entry h), OnDone True ''Device database update complete'' (Some (orig_entry h))]"
      by (auto simp add: dispatch_ack_last simp del: dispatch.simps)
    with last show ?thesis
      by (auto intro: exI [of _ "[AddEntry (entry h)]"])
  next
    case more
    let ?h = "h\<lparr>entry := e', next_upd := rest\<rparr>"
    obtain tr' where run: "dispatch ?h ms = (act, h', tr')"
      and tr: "tr = AddEntry (entry h) # SendSelf m' # tr'"
      using Cons.prems more by (auto simp add: dispatch_ack_more simp del: dispatch.simps split: prod.splits)
    note ok = Cons.IH [OF run]
    show ?thesis
    proof (cases act)
      case True
      with ok tr more show ?thesis by auto
    next
      case False
      with ok obtain pre where pre: "on_done_calls pre = []"
        and alt: "(tr' = pre @ [OnDone True ''Device database update complete'' (Some (orig_entry h))]
                     \<and> added tr' = e' # map snd rest)
                \<or> (tr' = pre @ [OnDone False ''Device database update failed'' None]
                        \<and> list_ex (db_fail (db_addr h)) ms)"
        by auto
      let ?pre = "AddEntry (entry h) # SendSelf m' # pre"
      have "on_done_calls ?pre = []" using pre by simp
      moreover have "(tr = ?pre @ [OnDone True ''Device database update complete'' (Some (orig_entry h))]
                     \<and> added tr = entry h # map snd (next_upd h))
                \<or> (tr = ?pre @ [OnDone False ''Device database update failed'' None]
                        \<and> list_ex (db_fail (db_addr h)) (m # ms))"
        using alt tr more by auto
      ultimately have "\<exists>pre. on_done_calls pre = []
               \<and> ((tr = pre @ [OnDone True ''Device database update complete''
                                  (Some (orig_entry h))]
                    \<and> added tr = entry h # map snd (next_upd h))
                   \<or> (tr = pre @ [OnDone False ''Device database update failed'' None]
                       \<and> list_ex (db_fail (db_addr h)) (m # ms)))"
        by blast
      then show ?thesis using ok tr more False by auto
    qed
  next
    case other
    with Cons.prems have "dispatch h ms = (act, h', tr)" by (simp add: dispatch_other del: dispatch.simps)
    from Cons.IH [OF this] other show ?thesis by auto
  qed
qed

lemma dispatch_result:
  "dispatch h ms = (act, h', tr) \<Longrightarrow>
     added tr =
       take (length (filter (db_ack (db_addr h)) (takeWhile (\<lambda>m. \<not> db_fail (db_addr h) m) ms)))
         (entry h # map snd (next_upd h))
     \<and> on_done_calls tr =
         (if Suc (length (next_upd h))
               \<le> length (filter (db_ack (db_addr h)) (takeWhile (\<lambda>m. \<not> db_fail (db_addr h) m) ms))
          then [(True, ''Device database update complete'', Some (orig_entry h))]
          else if list_ex (db_fail (db_addr h)) ms
          then [(False, ''Device database update failed'', None)]
          else [])
     \<and> act = (on_done_calls tr = [])"
proof (induction ms arbitrary: h act h' tr)
  case Nil
  then show ?case by auto
next
  case (Cons m ms)
  consider (fail) "db_fail (db_addr h) m"
    | (last) "db_ack (db_addr h) m" "next_upd h = []"
    | (more) m' e' rest where "db_ack (db_addr h) m" "next_upd h = (m', e') # rest"
    | (other) "\<not> db_ack (db_addr h) m" "\<not> db_fail (db_addr h) m"
    by (cases "next_upd h") auto
  then show ?case
  proof cases
    case fail
    with Cons.prems have "act = False" "tr = [OnDone False ''Device database update failed'' None]"
      by (auto simp add: dispatch_fail simp del: dispatch.simps)
    with fail show ?thesis by simp
  next
    case last
    with Cons.prems have "act = False"
      "tr = [AddEntry (entry h), OnDone True ''Device database update complete'' (Some (orig_entry h))]"
      by (auto simp add: dispatch_ack_last simp del: dispatch.simps)
    with last ack_not_fail [OF last(1)] show ?thesis by simp
  next
    case more
    let ?h = "h\<lparr>entry := e', next_upd := rest\<rparr>"
    obtain tr' where run: "dispatch ?h ms = (act, h', tr')"
      and tr: "tr = AddEntry (entry h) # SendSelf m' # tr'"
      using Cons.prems more
      by (auto simp add: dispatch_ack_more simp del: dispatch.simps split: prod.splits)
    note ih = Cons.IH [OF run]
    from ih tr more ack_not_fail [OF more(1)] show ?thesis by simp
  next
    case other
    with Cons.prems have "dispatch h ms = (act, h', tr)"
      by (simp add: dispatch_other del: dispatch.simps)
    from Cons.IH [OF this] other show ?thesis by simp
  qed
qed

lemma chain_fields:
  "db_addr (chain a e us) = a \<and> entry (chain a e us) = e \<and> orig_entry (chain a e us) = e
   \<and> next_upd (chain a e us) = us"
proof -
  have "\<And>h. db_addr (foldl (\<lambda>h (m, e'). add_update h m e') h us) = db_addr h
        \<and> entry (foldl (\<lambda>h (m, e'). add_update h m e') h us) = entry h
        \<and> orig_entry (foldl (\<lambda>h (m, e'). add_update h m e') h us) = orig_entry h
        \<and> next_upd (foldl (\<lambda>h (m, e'). add_update h m e') h us) = next_upd h @ us"
    by (induction us) (auto simp add: add_update_def)
  then show ?thesis by (simp add: chain_def DeviceDbModify_init_def)
qed


lemma step_calls:
  "length (on_done_calls (snd (snd (DeviceDbModify_msg_received h m)))) =
     (if fst (DeviceDbModify_msg_received h m) = FINISHED
         \<and> \<not> reinstalls (snd (snd (DeviceDbModify_msg_received h m))) then 1 else 0)"
proof -
  consider (fail) "db_fail (db_addr h) m"
    | (last) "db_ack (db_addr h) m" "next_upd h = []"
    | (more) m' e' rest where "db_ack (db_addr h) m" "next_upd h = (m', e') # rest"
    | (other) "\<not> db_ack (db_addr h) m" "\<not> db_fail (db_addr h) m"
    by (cases "next_upd h") auto
  then show ?thesis
  proof cases
    case fail then show ?thesis by (simp add: step_fail)
  next
    case last then show ?thesis by (simp add: step_ack_last)
  next
    case more then show ?thesis by (simp add: step_ack_more)
  next
    case other then show ?thesis by (simp add: step_other)
  qed
qed



text \<open>
  C1, as stated: over any sequence of messages offered to \<^verbatim>\<open>msg_received\<close> the
  callback \<^verbatim>\<open>on_done\<close> is never called more than once. A handler of one step that is
  offered two direct-NAK replies calls it twice.
\<close>

theorem single_callback_any_sequence_counterexample:
  "\<not> length (on_done_calls (snd (offer_all (chain 7 (1::nat) [])
        [InpStandard 7 0x2f 0x00 DIRECT_NAK, InpStandard 7 0x2f 0x00 DIRECT_NAK]))) \<le> 1"
  by (simp add: chain_def DeviceDbModify_init_def DeviceDbModify_msg_received_def)

text \<open>
  C1, amended. A chain of \<open>1 + length us\<close> steps, the entry \<open>e0\<close> of the construction
  and the pairs \<open>us\<close> added with \<^verbatim>\<open>add_update\<close>, is offered any list of messages by
  the dispatch loop, which offers nothing more to a handler that returned \<^verbatim>\<open>FINISHED\<close>
  without sending a next message. The calls of \<^verbatim>\<open>on_done\<close> in the run are then
  determined by the messages. If as many direct-ack replies as the chain has steps
  arrive before any echo-NAK, direct-NAK or reply of another kind, there is exactly one
  call, the success call with the entry \<open>e0\<close>. Otherwise, if such a failing message
  arrives, there is exactly one call, the failure call with no entry. Otherwise there is
  no call and the handler is still active. \<^verbatim>\<open>add_entry\<close> has been called for the
  entries of the confirmed steps, in order. The call of \<^verbatim>\<open>on_done\<close> is the last effect of
  the run. In one call of \<^verbatim>\<open>msg_received\<close>, a failing message gives the failure call at
  once, at any step; a direct-ack with an empty queue gives \<^verbatim>\<open>add_entry\<close> and then the
  success call with the first entry; and \<^verbatim>\<open>on_done\<close> is called once when the call returns
  \<^verbatim>\<open>FINISHED\<close> without sending a next message, and not at all otherwise.
\<close>

theorem single_callback:
  assumes "dispatch (chain a e0 us) ms = (act, h', tr)"
  shows "on_done_calls tr =
       (if 1 + length us \<le> length (filter (db_ack a) (takeWhile (\<lambda>m. \<not> db_fail a m) ms))
        then [(True, ''Device database update complete'', Some e0)]
        else if list_ex (db_fail a) ms
        then [(False, ''Device database update failed'', None)]
        else [])
     \<and> act = (on_done_calls tr = [])
     \<and> added tr =
         take (length (filter (db_ack a) (takeWhile (\<lambda>m. \<not> db_fail a m) ms)))
           (e0 # map snd us)
     \<and> length (on_done_calls tr) = (if act then 0 else 1)
     \<and> (\<not> act \<longrightarrow>
          (\<exists>pre. on_done_calls pre = []
             \<and> ((tr = pre @ [OnDone True ''Device database update complete'' (Some e0)]
                  \<and> added tr = e0 # map snd us
                  \<and> 1 + length us \<le> length (filter (db_ack a) ms))
                 \<or> (tr = pre @ [OnDone False ''Device database update failed'' None]
                     \<and> list_ex (db_fail a) ms))))
     \<and> (\<forall>h m. db_fail (db_addr h) m \<longrightarrow>
           DeviceDbModify_msg_received h m =
             (FINISHED, h, [OnDone False ''Device database update failed'' None]))
     \<and> (\<forall>h m. db_ack (db_addr h) m \<and> next_upd h = [] \<longrightarrow>
           DeviceDbModify_msg_received h m =
             (FINISHED, h,
              [AddEntry (entry h),
               OnDone True ''Device database update complete'' (Some (orig_entry h))]))
     \<and> (\<forall>h m. length (on_done_calls (snd (snd (DeviceDbModify_msg_received h m)))) =
           (if fst (DeviceDbModify_msg_received h m) = FINISHED
               \<and> \<not> reinstalls (snd (snd (DeviceDbModify_msg_received h m))) then 1 else 0))"
proof -
  note res = dispatch_result [OF assms, unfolded chain_fields [of a e0 us, THEN conjunct1]
      chain_fields [of a e0 us, THEN conjunct2, THEN conjunct1]
      chain_fields [of a e0 us, THEN conjunct2, THEN conjunct2, THEN conjunct1]
      chain_fields [of a e0 us, THEN conjunct2, THEN conjunct2, THEN conjunct2]]
  have R1: "on_done_calls tr =
       (if 1 + length us \<le> length (filter (db_ack a) (takeWhile (\<lambda>m. \<not> db_fail a m) ms))
        then [(True, ''Device database update complete'', Some e0)]
        else if list_ex (db_fail a) ms
        then [(False, ''Device database update failed'', None)]
        else [])"
    using res by simp
  have R2: "act = (on_done_calls tr = [])" using res by simp
  have R3: "added tr =
         take (length (filter (db_ack a) (takeWhile (\<lambda>m. \<not> db_fail a m) ms)))
           (e0 # map snd us)"
    using res by simp
  have S: "\<forall>h m. db_ack (db_addr h) m \<and> next_upd h = [] \<longrightarrow>
           DeviceDbModify_msg_received h m =
             (FINISHED, h,
              [AddEntry (entry h),
               OnDone True ''Device database update complete'' (Some (orig_entry h))])"
    by (auto simp add: step_ack_last)
  note f = chain_fields [of a e0 us]
  note inv = dispatch_outcome [OF assms, unfolded f [THEN conjunct1]
      f [THEN conjunct2, THEN conjunct1] f [THEN conjunct2, THEN conjunct2, THEN conjunct1]
      f [THEN conjunct2, THEN conjunct2, THEN conjunct2]]
  have len: "length (added tr) \<le> length (filter (db_ack a) ms)" using inv by simp
  have A: "length (on_done_calls tr) = (if act then 0 else 1)"
    using inv by (auto simp add: on_done_calls_append)
  have B: "\<not> act \<longrightarrow>
          (\<exists>pre. on_done_calls pre = []
             \<and> ((tr = pre @ [OnDone True ''Device database update complete'' (Some e0)]
                  \<and> added tr = e0 # map snd us
                  \<and> 1 + length us \<le> length (filter (db_ack a) ms))
                 \<or> (tr = pre @ [OnDone False ''Device database update failed'' None]
                     \<and> list_ex (db_fail a) ms)))"
  proof
    assume "\<not> act"
    with inv obtain pre where pre: "on_done_calls pre = []"
      and alt: "(tr = pre @ [OnDone True ''Device database update complete'' (Some e0)]
                  \<and> added tr = e0 # map snd us)
                 \<or> (tr = pre @ [OnDone False ''Device database update failed'' None]
                     \<and> list_ex (db_fail a) ms)"
      by auto
    from alt len have "(tr = pre @ [OnDone True ''Device database update complete'' (Some e0)]
                  \<and> added tr = e0 # map snd us
                  \<and> 1 + length us \<le> length (filter (db_ack a) ms))
                 \<or> (tr = pre @ [OnDone False ''Device database update failed'' None]
                     \<and> list_ex (db_fail a) ms)"
      by auto
    with pre show "\<exists>pre. on_done_calls pre = []
             \<and> ((tr = pre @ [OnDone True ''Device database update complete'' (Some e0)]
                  \<and> added tr = e0 # map snd us
                  \<and> 1 + length us \<le> length (filter (db_ack a) ms))
                 \<or> (tr = pre @ [OnDone False ''Device database update failed'' None]
                     \<and> list_ex (db_fail a) ms))"
      by blast
  qed
  have C: "\<forall>h m. db_fail (db_addr h) m \<longrightarrow>
           DeviceDbModify_msg_received h m =
             (FINISHED, h, [OnDone False ''Device database update failed'' None])"
    using step_fail by blast
  have D: "\<forall>h m. length (on_done_calls (snd (snd (DeviceDbModify_msg_received h m)))) =
           (if fst (DeviceDbModify_msg_received h m) = FINISHED
               \<and> \<not> reinstalls (snd (snd (DeviceDbModify_msg_received h m))) then 1 else 0)"
    using step_calls by blast
  from R1 R2 R3 A B C S D show ?thesis by blast
qed

lemma scenario_success:
  "dispatch (chain 7 (1::nat) [(OutExtended 7 0x2f 0x00 False [2], 2)])
      [OutExtended 7 0x2f 0x00 True [1], InpStandard 7 0x2f 0x00 DIRECT_ACK,
       OutExtended 7 0x2f 0x00 True [2], InpStandard 7 0x2f 0x00 DIRECT_ACK]
   = (False, \<lparr> db_addr = 7, entry = 2, orig_entry = 1, next_upd = [] \<rparr>,
      [AddEntry 1, SendSelf (OutExtended 7 0x2f 0x00 False [2]), AddEntry 2,
       OnDone True ''Device database update complete'' (Some 1)])"
  by (simp add: chain_def DeviceDbModify_init_def add_update_def DeviceDbModify_msg_received_def)

theorem single_callback_witness:
  "dispatch (chain 7 (1::nat) [(OutExtended 7 0x2f 0x00 False [2], 2)])
      [OutExtended 7 0x2f 0x00 True [1], InpStandard 7 0x2f 0x00 DIRECT_ACK,
       OutExtended 7 0x2f 0x00 True [2], InpStandard 7 0x2f 0x00 DIRECT_ACK]
   = (False, \<lparr> db_addr = 7, entry = 2, orig_entry = 1, next_upd = [] \<rparr>,
      [AddEntry 1, SendSelf (OutExtended 7 0x2f 0x00 False [2]), AddEntry 2,
       OnDone True ''Device database update complete'' (Some 1)])
   \<and> on_done_calls
        [AddEntry (1::nat), SendSelf (OutExtended 7 0x2f 0x00 False [2]), AddEntry 2,
         OnDone True ''Device database update complete'' (Some 1)]
       = [(True, ''Device database update complete'', Some 1)]"
  using single_callback [OF scenario_success] scenario_success by simp




section \<open>The database opcode\<close>

text \<open>
  C8. When \<^verbatim>\<open>DeviceRefresh\<close> requests the database, the message it sends is the
  extended direct message to the address of the device with \<^verbatim>\<open>cmd1 = 0x2f\<close>,
  \<^verbatim>\<open>cmd2 = 0x00\<close> and a payload of 14 zero bytes. \<^verbatim>\<open>DeviceDbModify\<close> claims a message
  if and only if it is an extended echo to, or a standard reply from, the address of its
  database and its \<^verbatim>\<open>cmd1\<close> is \<^verbatim>\<open>0x2f\<close>.
\<close>

theorem db_opcode:
  "(is_InpStandard m \<and> from_addr m = dr_addr h \<and> (force h \<or> \<not> is_current (cmd1 m)) \<longrightarrow>
      snd (snd (DeviceRefresh_msg_received is_current h m)) =
        [HandleRefresh m, DbClear,
         Send (OutExtended (dr_addr h) 0x2f 0x00 False [0, 0, 0, 0, 0, 0, 0, 0, 0, 0, 0, 0, 0, 0])
           (DeviceDbGet (cmd1 m)
              (OutExtended (dr_addr h) 0x2f 0x00 False [0, 0, 0, 0, 0, 0, 0, 0, 0, 0, 0, 0, 0, 0]))])
   \<and> (fst (DeviceDbModify_msg_received g msg) \<noteq> UNKNOWN \<longleftrightarrow>
        (is_OutExtended msg \<and> to_addr msg = db_addr g \<or> is_InpStandard msg \<and> from_addr msg = db_addr g)
        \<and> cmd1 msg = 0x2f)"
proof -
  have b: "bytes 14 = [0, 0, 0, 0, 0, 0, 0, 0, 0, 0, 0, 0, 0, 0]"
    by (simp add: bytes_def eval_nat_numeral)
  have A: "is_InpStandard m \<and> from_addr m = dr_addr h \<and> (force h \<or> \<not> is_current (cmd1 m)) \<longrightarrow>
      snd (snd (DeviceRefresh_msg_received is_current h m)) =
        [HandleRefresh m, DbClear,
         Send (OutExtended (dr_addr h) 0x2f 0x00 False [0, 0, 0, 0, 0, 0, 0, 0, 0, 0, 0, 0, 0, 0])
           (DeviceDbGet (cmd1 m)
              (OutExtended (dr_addr h) 0x2f 0x00 False [0, 0, 0, 0, 0, 0, 0, 0, 0, 0, 0, 0, 0, 0]))]"
    by (cases m) (auto simp add: DeviceRefresh_msg_received_def Let_def OutExtended_direct_def b)
  have B: "fst (DeviceDbModify_msg_received g msg) \<noteq> UNKNOWN \<longleftrightarrow>
        (is_OutExtended msg \<and> to_addr msg = db_addr g \<or> is_InpStandard msg \<and> from_addr msg = db_addr g)
        \<and> cmd1 msg = 0x2f"
    by (cases msg) (auto simp add: DeviceDbModify_msg_received_def split: list.splits)
  from A B show ?thesis by (rule conjI)
qed

theorem db_opcode_witness:
  "snd (snd (DeviceRefresh_msg_received (\<lambda>delta. False)
       (DeviceRefresh_init 7 (OutStandard 7 0x19 0x00 False) False None 5)
       (InpStandard 7 0x05 0xff DIRECT_ACK))) =
     [HandleRefresh (InpStandard 7 0x05 0xff DIRECT_ACK), DbClear,
      Send (OutExtended 7 47 0 False [0, 0, 0, 0, 0, 0, 0, 0, 0, 0, 0, 0, 0, 0])
        (DeviceDbGet 5 (OutExtended 7 47 0 False [0, 0, 0, 0, 0, 0, 0, 0, 0, 0, 0, 0, 0, 0]))]
   \<and> fst (DeviceDbModify_msg_received (DeviceDbModify_init 7 (1::nat))
        (OutExtended 7 0x2f 0x00 True [])) = CONTINUE
   \<and> fst (DeviceDbModify_msg_received (DeviceDbModify_init 7 (1::nat))
        (OutExtended 7 0x2e 0x00 True [])) = UNKNOWN"
  using db_opcode [of "InpStandard 7 0x05 0xff DIRECT_ACK"
      "DeviceRefresh_init 7 (OutStandard 7 0x19 0x00 False) False None 5" "\<lambda>delta. False"
      "DeviceDbModify_init 7 (1::nat)" "OutExtended 7 0x2f 0x00 True []"]
    db_opcode [of "InpStandard 7 0x05 0xff DIRECT_ACK"
      "DeviceRefresh_init 7 (OutStandard 7 0x19 0x00 False) False None 5" "\<lambda>delta. False"
      "DeviceDbModify_init 7 (1::nat)" "OutExtended 7 0x2e 0x00 True []"]
  by (simp add: DeviceRefresh_init_def DeviceDbModify_init_def DeviceDbModify_msg_received_def)

end
